theory Spec2Isabelle
  imports Main
begin

section \<open>The stored procedure \<open>accept_visit\<close>\<close>

subsection \<open>Tables\<close>

text \<open>
  The procedure reads the tables \<open>activities\<close> and \<open>qr_codes\<close> and inserts into
  \<open>visits\<close>. Their declarations are not part of the sources; a row carries the columns the
  procedure names, every column is taken as \<open>NOT NULL\<close>, and a table is the list of its rows
  in scan order. A \<open>uuid\<close> is its canonical text, a \<open>timestamptz\<close> a number of
  microseconds.
\<close>

type_synonym uuid = string
type_synonym timestamptz = int

record activities_row =
  act_id :: uuid
  act_name :: string
  act_points :: int
  act_is_active :: bool

record qr_codes_row =
  qr_code :: string
  qr_user_id :: uuid
  qr_is_active :: bool
  qr_expires_at :: timestamptz

record visits_row =
  visit_id :: uuid
  visit_user_id :: uuid

text \<open>
  The ledger behind \<open>process_points_transaction\<close> belongs to that function alone; its
  state is the type parameter \<open>'l\<close>.
\<close>

record 'l database =
  activities :: "activities_row list"
  qr_codes :: "qr_codes_row list"
  visits :: "visits_row list"
  ledger :: 'l

text \<open>The server: the database and the server log, which no rollback reaches.\<close>

record 'l server =
  db :: "'l database"
  log :: "string list"

subsection \<open>Errors, values and the ambient session\<close>

record pg_error =
  sqlstate :: string
  message :: string

text \<open>\<open>RAISE EXCEPTION 'text'\<close> raises SQLSTATE \<open>P0001\<close> with the text as message.\<close>

definition raise_exception :: "string \<Rightarrow> pg_error" where
  "raise_exception msg = \<lparr>sqlstate = ''P0001'', message = msg\<rparr>"

definition Unauthorized :: pg_error where
  "Unauthorized = raise_exception ''Unauthorized: Admin access required''"

definition InvalidActivity :: pg_error where
  "InvalidActivity = raise_exception ''Invalid activity type''"

definition InvalidOrExpiredCode :: pg_error where
  "InvalidOrExpiredCode = raise_exception ''Invalid or expired QR code''"

datatype jsonb = JNull | JString string | JObject "(string \<times> jsonb) list"

text \<open>A \<open>text\<close> argument may be \<open>NULL\<close>, which is \<open>None\<close>.\<close>

fun to_jsonb :: "string option \<Rightarrow> jsonb" where
  "to_jsonb None = JNull"
| "to_jsonb (Some s) = JString s"

definition jsonb_build_object :: "(string \<times> jsonb) list \<Rightarrow> jsonb" where
  "jsonb_build_object kvs = JObject kvs"

fun jsonb_object_keys :: "jsonb \<Rightarrow> string list" where
  "jsonb_object_keys (JObject kvs) = map fst kvs"
| "jsonb_object_keys _ = []"

fun jsonb_field :: "jsonb \<Rightarrow> string \<Rightarrow> jsonb option" where
  "jsonb_field (JObject kvs) k = map_of kvs k"
| "jsonb_field _ k = None"

text \<open>
  What the procedure takes from its session: the answer of \<open>is_admin()\<close>, the value of
  \<open>now()\<close>, and the identifier that the default of \<open>visits.id\<close> generates for the row
  inserted by this call.
\<close>

record session =
  is_admin :: bool
  now :: timestamptz
  generated_visit_id :: uuid

text \<open>The five arguments of one call of \<open>process_points_transaction\<close>.\<close>

record points_call =
  p_user_id :: uuid
  p_amount :: int
  p_type :: string
  p_description :: string
  p_metadata :: jsonb

subsection \<open>The statements of the procedure\<close>

text \<open>
  \<open>SELECT * INTO v_activity FROM activities WHERE name = p_activity_name AND is_active = true\<close>:
  the first row that matches, and \<open>FOUND\<close> is whether there is one. A comparison with
  \<open>NULL\<close> matches no row.
\<close>

definition select_activity :: "string option \<Rightarrow> activities_row list \<Rightarrow> activities_row option" where
  "select_activity p_activity_name rows =
     find (\<lambda>r. Some (act_name r) = p_activity_name \<and> act_is_active r = True) rows"

text \<open>
  \<open>SELECT user_id INTO v_user_id FROM qr_codes WHERE code = p_code AND is_active = true
  AND expires_at > now()\<close>.
\<close>

definition select_qr_code :: "timestamptz \<Rightarrow> string option \<Rightarrow> qr_codes_row list \<Rightarrow> qr_codes_row option" where
  "select_qr_code t p_code rows =
     find (\<lambda>r. Some (qr_code r) = p_code \<and> qr_is_active r = True \<and> qr_expires_at r > t) rows"

text \<open>\<open>INSERT INTO visits (user_id) VALUES (v_user_id) RETURNING id INTO v_visit_id\<close>.\<close>

definition insert_visit :: "session \<Rightarrow> uuid \<Rightarrow> 'l database \<Rightarrow> uuid \<times> 'l database" where
  "insert_visit s v_user_id d =
     (generated_visit_id s,
      d\<lparr>visits := visits d @ [\<lparr>visit_id = generated_visit_id s, visit_user_id = v_user_id\<rparr>]\<rparr>)"

text \<open>The argument list of the \<open>PERFORM process_points_transaction(...)\<close> statement.\<close>

definition points_transaction_args ::
  "string option \<Rightarrow> uuid \<Rightarrow> uuid \<Rightarrow> activities_row \<Rightarrow> points_call" where
  "points_transaction_args p_code v_user_id v_visit_id v_activity =
     \<lparr>p_user_id = v_user_id,
      p_amount = act_points v_activity,
      p_type = ''earn'',
      p_description = ''Points earned from '' @ act_name v_activity,
      p_metadata = jsonb_build_object
        [(''qr_code'', to_jsonb p_code),
         (''visit_id'', JString v_visit_id),
         (''activity_name'', JString (act_name v_activity)),
         (''activity_id'', JString (act_id v_activity))]\<rparr>"

text \<open>
  The statements between \<open>BEGIN\<close> and \<open>EXCEPTION\<close>. The result is the database the block
  ends with, or the error raised together with the database as it stood when the error was
  raised. The function \<open>process_points_transaction\<close> is not part of the sources and is the
  parameter \<open>ppt\<close>: from its arguments and the ledger it gives an error or the new ledger.
\<close>

definition accept_visit_block ::
  "(points_call \<Rightarrow> 'l \<Rightarrow> pg_error + 'l) \<Rightarrow> session \<Rightarrow> string option \<Rightarrow> string option
     \<Rightarrow> 'l database \<Rightarrow> (pg_error \<times> 'l database) + 'l database" where
  "accept_visit_block ppt s p_code p_activity_name d =
     (if \<not> is_admin s then Inl (raise_exception ''Unauthorized: Admin access required'', d)
      else case select_activity p_activity_name (activities d) of
        None \<Rightarrow> Inl (raise_exception ''Invalid activity type'', d)
      | Some v_activity \<Rightarrow>
          (case select_qr_code (now s) p_code (qr_codes d) of
             None \<Rightarrow> Inl (raise_exception ''Invalid or expired QR code'', d)
           | Some qr \<Rightarrow>
               (let v_user_id = qr_user_id qr;
                    (v_visit_id, d1) = insert_visit s v_user_id d
                in case ppt (points_transaction_args p_code v_user_id v_visit_id v_activity)
                          (ledger d1) of
                     Inl e \<Rightarrow> Inl (e, d1)
                   | Inr l \<Rightarrow> Inr (d1\<lparr>ledger := l\<rparr>))))"

text \<open>\<open>RAISE LOG 'Error in accept_visit: %', SQLERRM\<close> writes one line to the server log.\<close>

definition raise_log :: "pg_error \<Rightarrow> 'l server \<Rightarrow> 'l server" where
  "raise_log e sv = sv\<lparr>log := log sv @ [''Error in accept_visit: '' @ message e]\<rparr>"

text \<open>
  \<open>WHEN OTHERS\<close> traps every error condition except \<open>QUERY_CANCELED\<close> (SQLSTATE
  \<open>57014\<close>) and \<open>ASSERT_FAILURE\<close> (SQLSTATE \<open>P0004\<close>).
\<close>

definition when_others :: "pg_error \<Rightarrow> bool" where
  "when_others e = (sqlstate e \<noteq> ''57014'' \<and> sqlstate e \<noteq> ''P0004'')"

text \<open>The handler: \<open>RAISE LOG\<close>, then \<open>RAISE\<close> of the error that was caught.\<close>

definition log_and_reraise :: "pg_error \<Rightarrow> 'l server \<Rightarrow> (pg_error + unit) \<times> 'l server" where
  "log_and_reraise e sv = (let logged = raise_log e sv in (Inl e, logged))"

text \<open>
  \<open>BEGIN body EXCEPTION WHEN OTHERS THEN handler END\<close>, for any body. When the body
  raises an error that \<open>WHEN OTHERS\<close> traps, PL/pgSQL undoes every change the body made
  to the database before it enters the handler: the handler starts from the database the
  block started with, not from the one the error was raised in. An error that is not
  trapped leaves the function as it is, without the handler; it aborts the statement that
  called the function, which undoes the changes as well. The server log is not undone.
\<close>

definition begin_exception_when_others ::
  "('l database \<Rightarrow> (pg_error \<times> 'l database) + 'l database) \<Rightarrow> 'l server
     \<Rightarrow> (pg_error + unit) \<times> 'l server" where
  "begin_exception_when_others body sv =
     (case body (db sv) of
        Inr d \<Rightarrow> (Inr (), sv\<lparr>db := d\<rparr>)
      | Inl (e, d_failed) \<Rightarrow>
          (let failed = sv\<lparr>db := d_failed\<rparr>;
               rolled_back = failed\<lparr>db := db sv\<rparr>
           in if when_others e then log_and_reraise e rolled_back
              else (Inl e, rolled_back)))"

text \<open>The whole function: the block with its handler.\<close>

definition accept_visit ::
  "(points_call \<Rightarrow> 'l \<Rightarrow> pg_error + 'l) \<Rightarrow> session \<Rightarrow> string option \<Rightarrow> string option
     \<Rightarrow> 'l server \<Rightarrow> (pg_error + unit) \<times> 'l server" where
  "accept_visit ppt s p_code p_activity_name sv =
     begin_exception_when_others (accept_visit_block ppt s p_code p_activity_name) sv"

text \<open>
  Modelled from the spec: \<open>process_points_transaction\<close>, which the sources call and do not
  contain. The spec has it create one ledger entry that carries the user, the amount, the
  kind, the note and the metadata it was given; the ledger is the list of these entries.
\<close>

definition process_points_transaction :: "points_call \<Rightarrow> points_call list \<Rightarrow> pg_error + points_call list" where
  "process_points_transaction c l = Inr (l @ [c])"

subsection \<open>A small database\<close>

definition gym :: activities_row where
  "gym = \<lparr>act_id = ''a-gym'', act_name = ''gym'', act_points = 10, act_is_active = True\<rparr>"

definition yoga :: activities_row where
  "yoga = \<lparr>act_id = ''a-yoga'', act_name = ''yoga'', act_points = 5, act_is_active = False\<rparr>"

definition fresh_code :: qr_codes_row where
  "fresh_code = \<lparr>qr_code = ''QR-1'', qr_user_id = ''u-1'', qr_is_active = True,
     qr_expires_at = 2000\<rparr>"

definition expired_code :: qr_codes_row where
  "expired_code = \<lparr>qr_code = ''QR-2'', qr_user_id = ''u-2'', qr_is_active = True,
     qr_expires_at = 999\<rparr>"

definition club :: "points_call list server" where
  "club = \<lparr>db = \<lparr>activities = [yoga, gym], qr_codes = [expired_code, fresh_code],
     visits = [\<lparr>visit_id = ''v-0'', visit_user_id = ''u-2''\<rparr>], ledger = []\<rparr>, log = []\<rparr>"

definition admin_at :: "timestamptz \<Rightarrow> uuid \<Rightarrow> session" where
  "admin_at t v = \<lparr>is_admin = True, now = t, generated_visit_id = v\<rparr>"

definition guest_at :: "timestamptz \<Rightarrow> uuid \<Rightarrow> session" where
  "guest_at t v = \<lparr>is_admin = False, now = t, generated_visit_id = v\<rparr>"

text \<open>The same database after one accepted visit for \<open>QR-1\<close> and \<open>gym\<close>.\<close>

definition club_after_first :: "points_call list server" where
  "club_after_first = club\<lparr>db := (db club)\<lparr>
      visits := [\<lparr>visit_id = ''v-0'', visit_user_id = ''u-2''\<rparr>,
                 \<lparr>visit_id = ''v-1'', visit_user_id = ''u-1''\<rparr>],
      ledger := [points_transaction_args (Some ''QR-1'') ''u-1'' ''v-1'' gym]\<rparr>\<rparr>"

text \<open>A ledger that refuses every call, to see a failure inside the delegated mutation.\<close>

definition ledger_down :: "points_call \<Rightarrow> points_call list \<Rightarrow> pg_error + points_call list" where
  "ledger_down c l = Inl \<lparr>sqlstate = ''23503'', message = ''no profile for user''\<rparr>"

text \<open>A ledger call that is cut short by the statement timeout.\<close>

definition ledger_cancelled :: "points_call \<Rightarrow> points_call list \<Rightarrow> pg_error + points_call list" where
  "ledger_cancelled c l =
     Inl \<lparr>sqlstate = ''57014'', message = ''canceling statement due to statement timeout''\<rparr>"

section \<open>The dashboard screen\<close>

text \<open>
  The component \<open>DashboardScreen\<close> holds five state variables. The two statistics are
  stored as the backend returns them and never inspected by \<open>loadData\<close>, so their types
  are the parameters \<open>'a\<close> and \<open>'r\<close>; \<open>null\<close> is \<open>None\<close>.
\<close>

record ('a, 'r) dashboard =
  stats :: "'a option"
  reviewStats :: "'r option"
  loading :: bool
  error :: "string option"
  isAdmin :: bool

text \<open>
  How the three promises of the backend settle during one load: \<open>Inl\<close> is a rejection
  with its message, \<open>Inr\<close> the value.
\<close>

record ('a, 'r) backend =
  checkAdminStatus :: "string + bool"
  getAdminStats :: "string + 'a"
  getReviewStats :: "string + 'r"

text \<open>The arguments of the five \<open>useState\<close> calls: the state of the first render.\<close>

definition first_render :: "('a, 'r) dashboard" where
  "first_render = \<lparr>stats = None, reviewStats = None, loading = True, error = None,
     isAdmin = False\<rparr>"

definition checkUserAdmin :: "('a, 'r) backend \<Rightarrow> ('a, 'r) dashboard \<Rightarrow> ('a, 'r) dashboard" where
  "checkUserAdmin api st =
     (case checkAdminStatus api of
        Inr adminStatus \<Rightarrow> st\<lparr>isAdmin := adminStatus\<rparr>
      | Inl err \<Rightarrow> st\<lparr>isAdmin := False\<rparr>)"

text \<open>\<open>promise.catch(err => { console.error(...); return null; })\<close>; the console is not modelled.\<close>

definition catch_null :: "string + 'v \<Rightarrow> 'v option" where
  "catch_null p = (case p of Inr v \<Rightarrow> Some v | Inl err \<Rightarrow> None)"

text \<open>
  Every render of the component builds its own \<open>loadData\<close>, and the \<open>isAdmin\<close> that
  function tests is the constant of the render that built it. The first argument is the
  state that render saw; the last is the state the setters act on. Nothing inside the
  \<open>try\<close> can throw, since both promises carry a \<open>catch\<close>, so the outer \<open>catch\<close>
  with its \<open>setError\<close> has no branch here.
\<close>

definition loadData ::
  "('a, 'r) dashboard \<Rightarrow> ('a, 'r) backend \<Rightarrow> ('a, 'r) dashboard \<Rightarrow> ('a, 'r) dashboard" where
  "loadData render api st =
     (let st1 = st\<lparr>error := None\<rparr>;
          st2 = st1\<lparr>loading := True\<rparr>;
          st3 = (if isAdmin render then
                   (let adminStatsData = catch_null (getAdminStats api);
                        reviewStatsData = catch_null (getReviewStats api)
                    in st2\<lparr>stats := adminStatsData, reviewStats := reviewStatsData\<rparr>)
                 else st2\<lparr>stats := None, reviewStats := None\<rparr>)
      in st3\<lparr>loading := False\<rparr>)"

text \<open>
  \<open>initializeData\<close> awaits \<open>checkUserAdmin\<close> and then calls the \<open>loadData\<close> of the
  render whose effect created it.
\<close>

definition initializeData ::
  "('a, 'r) dashboard \<Rightarrow> ('a, 'r) backend \<Rightarrow> ('a, 'r) dashboard \<Rightarrow> ('a, 'r) dashboard" where
  "initializeData render api st = loadData render api (checkUserAdmin api st)"

text \<open>
  \<open>useEffect(..., [])\<close> runs its function once, after the first render, so the render
  it belongs to is the first one.
\<close>

definition mount :: "('a, 'r) backend \<Rightarrow> ('a, 'r) dashboard" where
  "mount api = initializeData first_render api first_render"

text \<open>
  \<open>onPress={loadData}\<close> and \<open>onReviewSubmitted={loadData}\<close> hand out the
  \<open>loadData\<close> of the render that is on screen, which saw the current state.
\<close>

definition refresh :: "('a, 'r) backend \<Rightarrow> ('a, 'r) dashboard \<Rightarrow> ('a, 'r) dashboard" where
  "refresh api st = loadData st api st"

text \<open>A backend that answers an administrator.\<close>

definition admin_backend :: "(nat, nat) backend" where
  "admin_backend = \<lparr>checkAdminStatus = Inr True, getAdminStats = Inr 7, getReviewStats = Inr 3\<rparr>"

section \<open>Properties of \<open>accept_visit\<close>\<close>

subsection \<open>How the block ends\<close>

lemmas accept_visit_unfold =
  accept_visit_def begin_exception_when_others_def log_and_reraise_def when_others_def
  accept_visit_block_def insert_visit_def raise_log_def Let_def

lemma select_activity_None:
  "select_activity n rows = None \<longleftrightarrow> \<not> (\<exists>r\<in>set rows. Some (act_name r) = n \<and> act_is_active r)"
  by (auto simp: select_activity_def find_None_iff)

lemma select_qr_code_None:
  "select_qr_code t c rows = None \<longleftrightarrow>
     (\<forall>r\<in>set rows. Some (qr_code r) = c \<longrightarrow> \<not> qr_is_active r \<or> qr_expires_at r \<le> t)"
  by (auto simp: select_qr_code_def find_None_iff)

lemma select_qr_code_Some:
  "select_qr_code t c rows = Some q \<Longrightarrow>
     q \<in> set rows \<and> Some (qr_code q) = c \<and> qr_is_active q \<and> t < qr_expires_at q"
  by (auto simp: select_qr_code_def find_Some_iff)

lemma select_activity_Some:
  "select_activity n rows = Some a \<Longrightarrow>
     a \<in> set rows \<and> Some (act_name a) = n \<and> act_is_active a"
  by (auto simp: select_activity_def find_Some_iff)

lemma select_qr_code_later:
  "select_qr_code t c rows = Some q \<Longrightarrow> t \<le> t' \<Longrightarrow> t' < qr_expires_at q \<Longrightarrow>
     select_qr_code t' c rows = Some q"
proof (induction rows)
  case Nil
  then show ?case by (simp add: select_qr_code_def)
next
  case (Cons r rows)
  then show ?case by (auto simp: select_qr_code_def split: if_splits)
qed

lemma block_failure_cases:
  assumes "accept_visit_block ppt s c n d = Inl (e, d')"
  shows "(\<not> is_admin s \<and> e = Unauthorized \<and> d' = d)
       \<or> (is_admin s \<and> select_activity n (activities d) = None \<and> e = InvalidActivity \<and> d' = d)
       \<or> (is_admin s \<and> select_activity n (activities d) \<noteq> None
            \<and> select_qr_code (now s) c (qr_codes d) = None \<and> e = InvalidOrExpiredCode \<and> d' = d)
       \<or> (\<exists>a q. is_admin s \<and> select_activity n (activities d) = Some a
            \<and> select_qr_code (now s) c (qr_codes d) = Some q
            \<and> ppt (points_transaction_args c (qr_user_id q) (generated_visit_id s) a) (ledger d) = Inl e
            \<and> d' = d\<lparr>visits := visits d @ [\<lparr>visit_id = generated_visit_id s, visit_user_id = qr_user_id q\<rparr>]\<rparr>)"
  using assms
  by (auto simp: accept_visit_block_def insert_visit_def Let_def Unauthorized_def InvalidActivity_def
        InvalidOrExpiredCode_def split: if_splits option.splits sum.splits)

lemma block_success:
  assumes "accept_visit_block ppt s c n d = Inr d'"
  shows "\<exists>a q l. is_admin s \<and> select_activity n (activities d) = Some a
            \<and> select_qr_code (now s) c (qr_codes d) = Some q
            \<and> ppt (points_transaction_args c (qr_user_id q) (generated_visit_id s) a) (ledger d) = Inr l
            \<and> d' = d\<lparr>visits := visits d @ [\<lparr>visit_id = generated_visit_id s, visit_user_id = qr_user_id q\<rparr>],
                     ledger := l\<rparr>"
  using assms
  by (auto simp: accept_visit_block_def insert_visit_def Let_def split: if_splits option.splits sum.splits)

lemma block_reaches_ledger:
  assumes "is_admin s" "select_activity n (activities d) = Some a"
    "select_qr_code (now s) c (qr_codes d) = Some q"
  shows "accept_visit_block ppt s c n d =
     (case ppt (points_transaction_args c (qr_user_id q) (generated_visit_id s) a) (ledger d) of
        Inl e \<Rightarrow> Inl (e, d\<lparr>visits := visits d @ [\<lparr>visit_id = generated_visit_id s, visit_user_id = qr_user_id q\<rparr>]\<rparr>)
      | Inr l \<Rightarrow> Inr (d\<lparr>visits := visits d @ [\<lparr>visit_id = generated_visit_id s, visit_user_id = qr_user_id q\<rparr>],
                     ledger := l\<rparr>))"
  using assms
  by (auto simp: accept_visit_block_def insert_visit_def Let_def split: if_splits option.splits sum.splits)

lemma block_raised:
  "body (db sv) = Inl (e, d') \<Longrightarrow>
     begin_exception_when_others body sv =
       (Inl e, if when_others e
               then sv\<lparr>log := log sv @ [''Error in accept_visit: '' @ message e]\<rparr> else sv)"
  by (simp add: begin_exception_when_others_def log_and_reraise_def raise_log_def Let_def)

lemma when_others_raise_exception: "when_others (raise_exception msg)"
  by (simp add: when_others_def raise_exception_def)

lemma accept_visit_of_block_raised:
  "accept_visit_block ppt s c n (db sv) = Inl (e, d') \<Longrightarrow>
     accept_visit ppt s c n sv =
       (Inl e, if when_others e
               then sv\<lparr>log := log sv @ [''Error in accept_visit: '' @ message e]\<rparr> else sv)"
  by (simp add: accept_visit_def block_raised)

lemma accept_visit_of_block_failure:
  "accept_visit_block ppt s c n (db sv) = Inl (e, d') \<Longrightarrow> when_others e \<Longrightarrow>
     accept_visit ppt s c n sv = (Inl e, sv\<lparr>log := log sv @ [''Error in accept_visit: '' @ message e]\<rparr>)"
  by (simp add: accept_visit_of_block_raised)

lemma accept_visit_of_block_success:
  "accept_visit_block ppt s c n (db sv) = Inr d' \<Longrightarrow>
     accept_visit ppt s c n sv = (Inr (), sv\<lparr>db := d'\<rparr>)"
  by (simp add: accept_visit_def begin_exception_when_others_def)

lemma accept_visit_failure_block:
  "fst (accept_visit ppt s c n sv) = Inl e \<Longrightarrow>
     \<exists>d'. accept_visit_block ppt s c n (db sv) = Inl (e, d')"
  by (auto simp: accept_visit_def begin_exception_when_others_def log_and_reraise_def Let_def
        split: sum.splits prod.splits if_splits)

lemma accept_visit_success_block:
  "fst (accept_visit ppt s c n sv) = Inr u \<Longrightarrow>
     \<exists>d'. accept_visit_block ppt s c n (db sv) = Inr d'"
  by (auto simp: accept_visit_def begin_exception_when_others_def log_and_reraise_def Let_def
        split: sum.splits prod.splits if_splits)

lemma accept_visit_qr_codes:
  "qr_codes (db (snd (accept_visit ppt s c n sv))) = qr_codes (db sv)"
proof (cases "accept_visit_block ppt s c n (db sv)")
  case (Inl f)
  then obtain e d' where "accept_visit_block ppt s c n (db sv) = Inl (e, d')" by (cases f) simp
  then show ?thesis by (simp add: accept_visit_of_block_raised)
next
  case (Inr d')
  from block_success [OF Inr] have "qr_codes d' = qr_codes (db sv)" by auto
  with Inr show ?thesis by (simp add: accept_visit_of_block_success)
qed

lemmas example_defs = club_def gym_def yoga_def fresh_code_def expired_code_def admin_at_def
  guest_at_def ledger_down_def process_points_transaction_def

lemmas eval_defs = accept_visit_unfold select_activity_def select_qr_code_def
  points_transaction_args_def jsonb_build_object_def raise_exception_def Unauthorized_def
  InvalidActivity_def InvalidOrExpiredCode_def

subsection \<open>Atomicity\<close>

text \<open>
  C1. A call of \<open>accept_visit\<close> that fails, at whichever step, leaves the database as
  it was before the call: the table of visits is the one the call started with. In
  particular, when the checks pass and \<open>process_points_transaction\<close> raises, the error is
  raised in a database that already holds the new visit row, the call fails with that
  error, and the database after the call is the one before it. Only the server log differs.
\<close>

theorem accept_visit_atomic:
  "(fst (accept_visit ppt s p_code p_activity_name sv) = Inl e \<longrightarrow>
      db (snd (accept_visit ppt s p_code p_activity_name sv)) = db sv
      \<and> visits (db (snd (accept_visit ppt s p_code p_activity_name sv))) = visits (db sv))
   \<and> (is_admin s \<and> select_activity p_activity_name (activities (db sv)) = Some a
        \<and> select_qr_code (now s) p_code (qr_codes (db sv)) = Some q
        \<and> ppt (points_transaction_args p_code (qr_user_id q) (generated_visit_id s) a)
              (ledger (db sv)) = Inl e'
      \<longrightarrow> accept_visit_block ppt s p_code p_activity_name (db sv) =
            Inl (e', (db sv)\<lparr>visits := visits (db sv) @
                   [\<lparr>visit_id = generated_visit_id s, visit_user_id = qr_user_id q\<rparr>]\<rparr>)
          \<and> fst (accept_visit ppt s p_code p_activity_name sv) = Inl e'
          \<and> db (snd (accept_visit ppt s p_code p_activity_name sv)) = db sv)"
proof (intro conjI impI)
  assume "fst (accept_visit ppt s p_code p_activity_name sv) = Inl e"
  then obtain d' where "accept_visit_block ppt s p_code p_activity_name (db sv) = Inl (e, d')"
    using accept_visit_failure_block by blast
  then have *: "accept_visit ppt s p_code p_activity_name sv =
      (Inl e, if when_others e
              then sv\<lparr>log := log sv @ [''Error in accept_visit: '' @ message e]\<rparr> else sv)"
    by (rule accept_visit_of_block_raised)
  show "db (snd (accept_visit ppt s p_code p_activity_name sv)) = db sv"
    by (simp add: *)
  show "visits (db (snd (accept_visit ppt s p_code p_activity_name sv))) = visits (db sv)"
    by (simp add: *)
next
  assume h: "is_admin s \<and> select_activity p_activity_name (activities (db sv)) = Some a
        \<and> select_qr_code (now s) p_code (qr_codes (db sv)) = Some q
        \<and> ppt (points_transaction_args p_code (qr_user_id q) (generated_visit_id s) a)
              (ledger (db sv)) = Inl e'"
  then have b: "accept_visit_block ppt s p_code p_activity_name (db sv) =
            Inl (e', (db sv)\<lparr>visits := visits (db sv) @
                   [\<lparr>visit_id = generated_visit_id s, visit_user_id = qr_user_id q\<rparr>]\<rparr>)"
    by (simp add: block_reaches_ledger)
  then show "accept_visit_block ppt s p_code p_activity_name (db sv) =
            Inl (e', (db sv)\<lparr>visits := visits (db sv) @
                   [\<lparr>visit_id = generated_visit_id s, visit_user_id = qr_user_id q\<rparr>]\<rparr>)" .
  from b have *: "accept_visit ppt s p_code p_activity_name sv =
      (Inl e', if when_others e'
               then sv\<lparr>log := log sv @ [''Error in accept_visit: '' @ message e']\<rparr> else sv)"
    by (rule accept_visit_of_block_raised)
  show "fst (accept_visit ppt s p_code p_activity_name sv) = Inl e'" by (simp add: *)
  show "db (snd (accept_visit ppt s p_code p_activity_name sv)) = db sv" by (simp add: *)
qed

theorem accept_visit_atomic_witness:
  "fst (accept_visit ledger_down (admin_at 1000 ''v-1'') (Some ''QR-1'') (Some ''gym'') club)
     = Inl \<lparr>sqlstate = ''23503'', message = ''no profile for user''\<rparr>
   \<and> is_admin (admin_at 1000 ''v-1'')
   \<and> select_activity (Some ''gym'') (activities (db club)) = Some gym
   \<and> select_qr_code (now (admin_at 1000 ''v-1'')) (Some ''QR-1'') (qr_codes (db club)) = Some fresh_code
   \<and> ledger_down (points_transaction_args (Some ''QR-1'') (qr_user_id fresh_code)
        (generated_visit_id (admin_at 1000 ''v-1'')) gym) (ledger (db club))
       = Inl \<lparr>sqlstate = ''23503'', message = ''no profile for user''\<rparr>
   \<and> accept_visit_block ledger_down (admin_at 1000 ''v-1'') (Some ''QR-1'') (Some ''gym'') (db club)
       = Inl (\<lparr>sqlstate = ''23503'', message = ''no profile for user''\<rparr>,
              (db club)\<lparr>visits := [\<lparr>visit_id = ''v-0'', visit_user_id = ''u-2''\<rparr>,
                                    \<lparr>visit_id = ''v-1'', visit_user_id = ''u-1''\<rparr>]\<rparr>)
   \<and> db (snd (accept_visit ledger_down (admin_at 1000 ''v-1'') (Some ''QR-1'') (Some ''gym'') club))
       = db club
   \<and> visits (db (snd (accept_visit ledger_down (admin_at 1000 ''v-1'') (Some ''QR-1'') (Some ''gym'') club)))
       = [\<lparr>visit_id = ''v-0'', visit_user_id = ''u-2''\<rparr>]"
  using accept_visit_atomic [of ledger_down "admin_at 1000 ''v-1''" "Some ''QR-1''" "Some ''gym''"
      club "\<lparr>sqlstate = ''23503'', message = ''no profile for user''\<rparr>" gym fresh_code
      "\<lparr>sqlstate = ''23503'', message = ''no profile for user''\<rparr>"]
  by (simp add: eval_defs example_defs)

subsection \<open>The metadata of the ledger call\<close>

text \<open>
  C2, as the spec words it, asks for a metadata field named \<open>code\<close>. The procedure
  builds the object with the key \<open>qr_code\<close>: after an accepted visit the entry that
  \<open>process_points_transaction\<close> recorded has no field \<open>code\<close>, and its keys are not
  the four of the spec.
\<close>

theorem metadata_code_field_counterexample:
  "fst (accept_visit process_points_transaction (admin_at 1000 ''v-1'') (Some ''QR-1'') (Some ''gym'') club)
     = Inr ()
   \<and> jsonb_field (p_metadata (last (ledger (db (snd (accept_visit process_points_transaction
        (admin_at 1000 ''v-1'') (Some ''QR-1'') (Some ''gym'') club)))))) ''code'' = None
   \<and> set (jsonb_object_keys (p_metadata (last (ledger (db (snd (accept_visit process_points_transaction
        (admin_at 1000 ''v-1'') (Some ''QR-1'') (Some ''gym'') club)))))))
       \<noteq> {''code'', ''visit_id'', ''activity_name'', ''activity_id''}"
proof -
  let ?r = "accept_visit process_points_transaction (admin_at 1000 ''v-1'') (Some ''QR-1'')
    (Some ''gym'') club"
  have ok: "fst ?r = Inr ()"
    by (simp add: eval_defs example_defs)
  have keys: "jsonb_object_keys (p_metadata (last (ledger (db (snd ?r)))))
      = [''qr_code'', ''visit_id'', ''activity_name'', ''activity_id'']"
    by (simp add: eval_defs example_defs)
  have field: "jsonb_field (p_metadata (last (ledger (db (snd ?r))))) ''code'' = None"
    by (simp add: eval_defs example_defs)
  have "''code'' \<notin> set (jsonb_object_keys (p_metadata (last (ledger (db (snd ?r))))))"
    by (simp add: keys)
  then have "set (jsonb_object_keys (p_metadata (last (ledger (db (snd ?r))))))
      \<noteq> {''code'', ''visit_id'', ''activity_name'', ''activity_id''}"
    by blast
  with ok field show ?thesis by blast
qed

text \<open>
  C2, amended. After a successful call the database holds one more visit \<open>v\<close>, and the
  ledger is what \<open>process_points_transaction\<close> made of it when called with a metadata
  object whose keys are exactly \<open>qr_code\<close>, \<open>visit_id\<close>, \<open>activity_name\<close> and
  \<open>activity_id\<close>: the code that was passed, the id of \<open>v\<close>, and the name and the id of
  the activity that was resolved.
\<close>

theorem accept_visit_metadata:
  assumes "accept_visit ppt s p_code p_activity_name sv = (Inr (), sv')"
  shows "\<exists>a q v code.
      select_activity p_activity_name (activities (db sv)) = Some a
    \<and> select_qr_code (now s) p_code (qr_codes (db sv)) = Some q
    \<and> p_code = Some code
    \<and> visits (db sv') = visits (db sv) @ [v]
    \<and> (let c = points_transaction_args p_code (qr_user_id q) (visit_id v) a in
         ppt c (ledger (db sv)) = Inr (ledger (db sv'))
       \<and> set (jsonb_object_keys (p_metadata c)) = {''qr_code'', ''visit_id'', ''activity_name'', ''activity_id''}
       \<and> distinct (jsonb_object_keys (p_metadata c))
       \<and> jsonb_field (p_metadata c) ''qr_code'' = Some (JString code)
       \<and> jsonb_field (p_metadata c) ''visit_id'' = Some (JString (visit_id v))
       \<and> jsonb_field (p_metadata c) ''activity_name'' = Some (JString (act_name a))
       \<and> jsonb_field (p_metadata c) ''activity_id'' = Some (JString (act_id a)))"
proof -
  from assms have "fst (accept_visit ppt s p_code p_activity_name sv) = Inr ()" by simp
  then obtain d' where b: "accept_visit_block ppt s p_code p_activity_name (db sv) = Inr d'"
    using accept_visit_success_block by blast
  with assms have sv': "sv' = sv\<lparr>db := d'\<rparr>"
    by (simp add: accept_visit_of_block_success)
  from block_success [OF b] obtain a q l where
    a: "select_activity p_activity_name (activities (db sv)) = Some a" and
    q: "select_qr_code (now s) p_code (qr_codes (db sv)) = Some q" and
    l: "ppt (points_transaction_args p_code (qr_user_id q) (generated_visit_id s) a) (ledger (db sv)) = Inr l" and
    d': "d' = (db sv)\<lparr>visits := visits (db sv) @
           [\<lparr>visit_id = generated_visit_id s, visit_user_id = qr_user_id q\<rparr>], ledger := l\<rparr>"
    by blast
  from select_qr_code_Some [OF q] obtain code where code: "p_code = Some code"
    by (cases p_code) auto
  let ?v = "\<lparr>visit_id = generated_visit_id s, visit_user_id = qr_user_id q\<rparr>"
  have "visits (db sv') = visits (db sv) @ [?v]" by (simp add: sv' d')
  moreover have "ppt (points_transaction_args p_code (qr_user_id q) (visit_id ?v) a) (ledger (db sv))
      = Inr (ledger (db sv'))" using l by (simp add: sv' d')
  moreover have "set (jsonb_object_keys (p_metadata (points_transaction_args p_code (qr_user_id q) (visit_id ?v) a)))
      = {''qr_code'', ''visit_id'', ''activity_name'', ''activity_id''}"
    by (simp add: points_transaction_args_def jsonb_build_object_def)
  moreover have "distinct (jsonb_object_keys (p_metadata (points_transaction_args p_code (qr_user_id q) (visit_id ?v) a)))"
    by (simp add: points_transaction_args_def jsonb_build_object_def)
  moreover have "jsonb_field (p_metadata (points_transaction_args p_code (qr_user_id q) (visit_id ?v) a)) ''qr_code''
      = Some (JString code)"
    by (simp add: points_transaction_args_def jsonb_build_object_def code)
  moreover have "jsonb_field (p_metadata (points_transaction_args p_code (qr_user_id q) (visit_id ?v) a)) ''visit_id''
      = Some (JString (visit_id ?v))"
    by (simp add: points_transaction_args_def jsonb_build_object_def)
  moreover have "jsonb_field (p_metadata (points_transaction_args p_code (qr_user_id q) (visit_id ?v) a)) ''activity_name''
      = Some (JString (act_name a))"
    by (simp add: points_transaction_args_def jsonb_build_object_def)
  moreover have "jsonb_field (p_metadata (points_transaction_args p_code (qr_user_id q) (visit_id ?v) a)) ''activity_id''
      = Some (JString (act_id a))"
    by (simp add: points_transaction_args_def jsonb_build_object_def)
  ultimately show ?thesis using a q code unfolding Let_def by blast
qed

theorem accept_visit_metadata_witness:
  "accept_visit process_points_transaction (admin_at 1000 ''v-1'') (Some ''QR-1'') (Some ''gym'') club
     = (Inr (), club\<lparr>db := (db club)\<lparr>
          visits := [\<lparr>visit_id = ''v-0'', visit_user_id = ''u-2''\<rparr>,
                     \<lparr>visit_id = ''v-1'', visit_user_id = ''u-1''\<rparr>],
          ledger := [\<lparr>p_user_id = ''u-1'', p_amount = 10, p_type = ''earn'',
                       p_description = ''Points earned from gym'',
                       p_metadata = JObject [(''qr_code'', JString ''QR-1''), (''visit_id'', JString ''v-1''),
                         (''activity_name'', JString ''gym''), (''activity_id'', JString ''a-gym'')]\<rparr>]\<rparr>\<rparr>)
   \<and> (\<exists>a q v code.
        select_activity (Some ''gym'') (activities (db club)) = Some a
      \<and> select_qr_code (now (admin_at 1000 ''v-1'')) (Some ''QR-1'') (qr_codes (db club)) = Some q
      \<and> Some ''QR-1'' = Some code
      \<and> [\<lparr>visit_id = ''v-0'', visit_user_id = ''u-2''\<rparr>, \<lparr>visit_id = ''v-1'', visit_user_id = ''u-1''\<rparr>]
          = visits (db club) @ [v]
      \<and> jsonb_field (p_metadata (points_transaction_args (Some ''QR-1'') (qr_user_id q) (visit_id v) a))
          ''visit_id'' = Some (JString (visit_id v)))"
proof -
  have run: "accept_visit process_points_transaction (admin_at 1000 ''v-1'') (Some ''QR-1'') (Some ''gym'') club
     = (Inr (), club\<lparr>db := (db club)\<lparr>
          visits := [\<lparr>visit_id = ''v-0'', visit_user_id = ''u-2''\<rparr>,
                     \<lparr>visit_id = ''v-1'', visit_user_id = ''u-1''\<rparr>],
          ledger := [\<lparr>p_user_id = ''u-1'', p_amount = 10, p_type = ''earn'',
                       p_description = ''Points earned from gym'',
                       p_metadata = JObject [(''qr_code'', JString ''QR-1''), (''visit_id'', JString ''v-1''),
                         (''activity_name'', JString ''gym''), (''activity_id'', JString ''a-gym'')]\<rparr>]\<rparr>\<rparr>)"
    by (simp add: eval_defs example_defs)
  from accept_visit_metadata [OF run] show ?thesis
    unfolding Let_def by (simp add: run) blast
qed

subsection \<open>The three checks\<close>

text \<open>
  C3. A caller who is not an administrator gets \<open>Unauthorized\<close>, whatever the code and
  the activity name are, and the call adds no visit and leaves the ledger alone.
\<close>

theorem non_admin_unauthorized:
  assumes "\<not> is_admin s"
  shows "fst (accept_visit ppt s p_code p_activity_name sv) = Inl Unauthorized
       \<and> message Unauthorized = ''Unauthorized: Admin access required''
       \<and> visits (db (snd (accept_visit ppt s p_code p_activity_name sv))) = visits (db sv)
       \<and> ledger (db (snd (accept_visit ppt s p_code p_activity_name sv))) = ledger (db sv)
       \<and> db (snd (accept_visit ppt s p_code p_activity_name sv)) = db sv"
proof -
  from assms have "accept_visit_block ppt s p_code p_activity_name (db sv) = Inl (Unauthorized, db sv)"
    by (simp add: accept_visit_block_def Unauthorized_def)
  then have "accept_visit ppt s p_code p_activity_name sv =
      (Inl Unauthorized, sv\<lparr>log := log sv @ [''Error in accept_visit: '' @ message Unauthorized]\<rparr>)"
    by (rule accept_visit_of_block_failure) (simp add: Unauthorized_def when_others_raise_exception)
  then show ?thesis by (simp add: Unauthorized_def raise_exception_def)
qed

theorem non_admin_unauthorized_witness:
  "\<not> is_admin (guest_at 1000 ''v-1'')
   \<and> select_activity (Some ''gym'') (activities (db club)) = Some gym
   \<and> select_qr_code 1000 (Some ''QR-1'') (qr_codes (db club)) = Some fresh_code
   \<and> fst (accept_visit process_points_transaction (guest_at 1000 ''v-1'') (Some ''QR-1'') (Some ''gym'') club)
       = Inl \<lparr>sqlstate = ''P0001'', message = ''Unauthorized: Admin access required''\<rparr>
   \<and> visits (db (snd (accept_visit process_points_transaction (guest_at 1000 ''v-1'') (Some ''QR-1'')
        (Some ''gym'') club))) = [\<lparr>visit_id = ''v-0'', visit_user_id = ''u-2''\<rparr>]
   \<and> ledger (db (snd (accept_visit process_points_transaction (guest_at 1000 ''v-1'') (Some ''QR-1'')
        (Some ''gym'') club))) = []"
  using non_admin_unauthorized [of "guest_at 1000 ''v-1''" process_points_transaction "Some ''QR-1''"
      "Some ''gym''" club]
  by (simp add: eval_defs example_defs)

text \<open>
  C4. For an administrator, when no row of \<open>activities\<close> has the given name and is
  active, the call fails with \<open>InvalidActivity\<close> and the database is unchanged.
\<close>

theorem unknown_or_inactive_activity:
  assumes "is_admin s"
    and "\<not> (\<exists>r\<in>set (activities (db sv)). Some (act_name r) = p_activity_name \<and> act_is_active r)"
  shows "fst (accept_visit ppt s p_code p_activity_name sv) = Inl InvalidActivity
       \<and> message InvalidActivity = ''Invalid activity type''
       \<and> db (snd (accept_visit ppt s p_code p_activity_name sv)) = db sv"
proof -
  from assms(2) have "select_activity p_activity_name (activities (db sv)) = None"
    by (simp add: select_activity_None)
  with assms(1) have "accept_visit_block ppt s p_code p_activity_name (db sv) = Inl (InvalidActivity, db sv)"
    by (simp add: accept_visit_block_def InvalidActivity_def)
  then have "accept_visit ppt s p_code p_activity_name sv =
      (Inl InvalidActivity, sv\<lparr>log := log sv @ [''Error in accept_visit: '' @ message InvalidActivity]\<rparr>)"
    by (rule accept_visit_of_block_failure) (simp add: InvalidActivity_def when_others_raise_exception)
  then show ?thesis by (simp add: InvalidActivity_def raise_exception_def)
qed

theorem unknown_or_inactive_activity_witness:
  "is_admin (admin_at 1000 ''v-1'')
   \<and> \<not> (\<exists>r\<in>set (activities (db club)). Some (act_name r) = Some ''yoga'' \<and> act_is_active r)
   \<and> yoga \<in> set (activities (db club)) \<and> act_name yoga = ''yoga'' \<and> \<not> act_is_active yoga
   \<and> fst (accept_visit process_points_transaction (admin_at 1000 ''v-1'') (Some ''QR-1'') (Some ''yoga'') club)
       = Inl \<lparr>sqlstate = ''P0001'', message = ''Invalid activity type''\<rparr>
   \<and> db (snd (accept_visit process_points_transaction (admin_at 1000 ''v-1'') (Some ''QR-1'') (Some ''yoga'')
        club)) = db club"
  using unknown_or_inactive_activity [of "admin_at 1000 ''v-1''" club "Some ''yoga''"
      process_points_transaction "Some ''QR-1''"]
  by (simp add: eval_defs example_defs)

text \<open>
  C5. For an administrator and an active activity of the given name, when every row of
  \<open>qr_codes\<close> with the given code is inactive or has \<open>expires_at <= now()\<close> (or there
  is no such row), the call fails with \<open>InvalidOrExpiredCode\<close> and the database is
  unchanged. The witness is a code that expires at the very instant of the call.
\<close>

theorem unknown_inactive_or_expired_code:
  assumes "is_admin s"
    and "\<exists>r\<in>set (activities (db sv)). Some (act_name r) = p_activity_name \<and> act_is_active r"
    and "\<forall>r\<in>set (qr_codes (db sv)).
           Some (qr_code r) = p_code \<longrightarrow> \<not> qr_is_active r \<or> qr_expires_at r \<le> now s"
  shows "fst (accept_visit ppt s p_code p_activity_name sv) = Inl InvalidOrExpiredCode
       \<and> message InvalidOrExpiredCode = ''Invalid or expired QR code''
       \<and> db (snd (accept_visit ppt s p_code p_activity_name sv)) = db sv"
proof -
  from assms(2) obtain a where a: "select_activity p_activity_name (activities (db sv)) = Some a"
    using select_activity_None [of p_activity_name "activities (db sv)"] by auto
  from assms(3) have "select_qr_code (now s) p_code (qr_codes (db sv)) = None"
    by (simp add: select_qr_code_None)
  with assms(1) a
  have "accept_visit_block ppt s p_code p_activity_name (db sv) = Inl (InvalidOrExpiredCode, db sv)"
    by (simp add: accept_visit_block_def InvalidOrExpiredCode_def)
  then have "accept_visit ppt s p_code p_activity_name sv =
      (Inl InvalidOrExpiredCode,
       sv\<lparr>log := log sv @ [''Error in accept_visit: '' @ message InvalidOrExpiredCode]\<rparr>)"
    by (rule accept_visit_of_block_failure) (simp add: InvalidOrExpiredCode_def when_others_raise_exception)
  then show ?thesis by (simp add: InvalidOrExpiredCode_def raise_exception_def)
qed

theorem unknown_inactive_or_expired_code_witness:
  "is_admin (admin_at 2000 ''v-1'')
   \<and> (\<exists>r\<in>set (activities (db club)). Some (act_name r) = Some ''gym'' \<and> act_is_active r)
   \<and> qr_codes (db club) = [expired_code, fresh_code]
   \<and> qr_code expired_code \<noteq> ''QR-1''
   \<and> qr_code fresh_code = ''QR-1'' \<and> qr_is_active fresh_code
   \<and> qr_expires_at fresh_code = now (admin_at 2000 ''v-1'')
   \<and> fst (accept_visit process_points_transaction (admin_at 2000 ''v-1'') (Some ''QR-1'') (Some ''gym'') club)
       = Inl \<lparr>sqlstate = ''P0001'', message = ''Invalid or expired QR code''\<rparr>
   \<and> db (snd (accept_visit process_points_transaction (admin_at 2000 ''v-1'') (Some ''QR-1'') (Some ''gym'')
        club)) = db club"
  using unknown_inactive_or_expired_code [of "admin_at 2000 ''v-1''" club "Some ''gym''" "Some ''QR-1''"
      process_points_transaction]
  by (simp add: eval_defs example_defs)

text \<open>
  C9. The checks run in the order administrator, activity, code: when at least one of them
  fails, the error is that of the first failing one in this order, and the three errors
  differ from one another.
\<close>

theorem validation_order:
  assumes "\<not> is_admin s \<or> select_activity p_activity_name (activities (db sv)) = None
         \<or> select_qr_code (now s) p_code (qr_codes (db sv)) = None"
  shows "fst (accept_visit ppt s p_code p_activity_name sv) =
           Inl (if \<not> is_admin s then Unauthorized
                else if select_activity p_activity_name (activities (db sv)) = None then InvalidActivity
                else InvalidOrExpiredCode)
       \<and> Unauthorized \<noteq> InvalidActivity \<and> Unauthorized \<noteq> InvalidOrExpiredCode
       \<and> InvalidActivity \<noteq> InvalidOrExpiredCode"
proof -
  have "\<exists>d. accept_visit_block ppt s p_code p_activity_name (db sv) =
      Inl (if \<not> is_admin s then Unauthorized
           else if select_activity p_activity_name (activities (db sv)) = None then InvalidActivity
           else InvalidOrExpiredCode, d)"
    using assms
    by (auto simp: accept_visit_block_def Unauthorized_def InvalidActivity_def InvalidOrExpiredCode_def
          split: option.splits)
  then obtain d where "accept_visit_block ppt s p_code p_activity_name (db sv) =
      Inl (if \<not> is_admin s then Unauthorized
           else if select_activity p_activity_name (activities (db sv)) = None then InvalidActivity
           else InvalidOrExpiredCode, d)" by blast
  then have "fst (accept_visit ppt s p_code p_activity_name sv) =
           Inl (if \<not> is_admin s then Unauthorized
                else if select_activity p_activity_name (activities (db sv)) = None then InvalidActivity
                else InvalidOrExpiredCode)"
    by (simp add: accept_visit_of_block_raised)
  moreover have "Unauthorized \<noteq> InvalidActivity" "Unauthorized \<noteq> InvalidOrExpiredCode"
    "InvalidActivity \<noteq> InvalidOrExpiredCode"
    by (simp_all add: Unauthorized_def InvalidActivity_def InvalidOrExpiredCode_def raise_exception_def)
  ultimately show ?thesis by blast
qed

theorem validation_order_witness:
  "is_admin (admin_at 1000 ''v-1'')
   \<and> select_activity (Some ''yoga'') (activities (db club)) = None
   \<and> select_qr_code (now (admin_at 1000 ''v-1'')) (Some ''QR-2'') (qr_codes (db club)) = None
   \<and> fst (accept_visit process_points_transaction (admin_at 1000 ''v-1'') (Some ''QR-2'') (Some ''yoga'') club)
       = Inl InvalidActivity
   \<and> \<not> is_admin (guest_at 1000 ''v-1'')
   \<and> fst (accept_visit process_points_transaction (guest_at 1000 ''v-1'') (Some ''QR-2'') (Some ''yoga'') club)
       = Inl Unauthorized
   \<and> InvalidActivity \<noteq> InvalidOrExpiredCode \<and> Unauthorized \<noteq> InvalidActivity"
  using validation_order [of "admin_at 1000 ''v-1''" "Some ''yoga''" club "Some ''QR-2''"
      process_points_transaction]
    validation_order [of "guest_at 1000 ''v-1''" "Some ''yoga''" club "Some ''QR-2''"
      process_points_transaction]
  by (simp add: select_activity_def select_qr_code_def example_defs)

subsection \<open>Effects\<close>

text \<open>
  C6. No call changes the table \<open>qr_codes\<close>. After a successful call the code that was
  redeemed is still in the table and still active; a second call by an administrator with
  the same code and activity, made before the code expires, passes the same checks, and
  when the ledger accepts its transaction (an amount of the activity's points) it succeeds
  and the table of visits has grown by two rows, one per call.
\<close>

theorem accept_visit_never_deactivates:
  "qr_codes (db (snd (accept_visit ppt s p_code p_activity_name sv))) = qr_codes (db sv)
   \<and> (accept_visit ppt s p_code p_activity_name sv = (Inr (), sv1)
        \<and> select_activity p_activity_name (activities (db sv)) = Some a
        \<and> select_qr_code (now s) p_code (qr_codes (db sv)) = Some q
        \<and> is_admin s2 \<and> now s \<le> now s2 \<and> now s2 < qr_expires_at q
        \<and> ppt (points_transaction_args p_code (qr_user_id q) (generated_visit_id s2) a)
              (ledger (db sv1)) = Inr l2
      \<longrightarrow> q \<in> set (qr_codes (db sv1)) \<and> qr_is_active q
          \<and> p_amount (points_transaction_args p_code (qr_user_id q) (generated_visit_id s2) a)
              = act_points a
          \<and> accept_visit ppt s2 p_code p_activity_name sv1 =
              (Inr (), sv1\<lparr>db := (db sv1)\<lparr>
                 visits := visits (db sv) @
                   [\<lparr>visit_id = generated_visit_id s, visit_user_id = qr_user_id q\<rparr>,
                    \<lparr>visit_id = generated_visit_id s2, visit_user_id = qr_user_id q\<rparr>],
                 ledger := l2\<rparr>\<rparr>))"
proof (intro conjI impI)
  show "qr_codes (db (snd (accept_visit ppt s p_code p_activity_name sv))) = qr_codes (db sv)"
    by (rule accept_visit_qr_codes)
next
  assume h: "accept_visit ppt s p_code p_activity_name sv = (Inr (), sv1)
        \<and> select_activity p_activity_name (activities (db sv)) = Some a
        \<and> select_qr_code (now s) p_code (qr_codes (db sv)) = Some q
        \<and> is_admin s2 \<and> now s \<le> now s2 \<and> now s2 < qr_expires_at q
        \<and> ppt (points_transaction_args p_code (qr_user_id q) (generated_visit_id s2) a)
              (ledger (db sv1)) = Inr l2"
  then have run: "accept_visit ppt s p_code p_activity_name sv = (Inr (), sv1)"
    and a: "select_activity p_activity_name (activities (db sv)) = Some a"
    and q: "select_qr_code (now s) p_code (qr_codes (db sv)) = Some q"
    and s2: "is_admin s2" "now s \<le> now s2" "now s2 < qr_expires_at q"
    and l2: "ppt (points_transaction_args p_code (qr_user_id q) (generated_visit_id s2) a)
              (ledger (db sv1)) = Inr l2"
    by simp_all
  from run have "fst (accept_visit ppt s p_code p_activity_name sv) = Inr ()" by simp
  then obtain d1 where b: "accept_visit_block ppt s p_code p_activity_name (db sv) = Inr d1"
    using accept_visit_success_block by blast
  with run have sv1: "sv1 = sv\<lparr>db := d1\<rparr>" by (simp add: accept_visit_of_block_success)
  from block_success [OF b] a q obtain l1 where
    d1: "d1 = (db sv)\<lparr>visits := visits (db sv) @
           [\<lparr>visit_id = generated_visit_id s, visit_user_id = qr_user_id q\<rparr>], ledger := l1\<rparr>"
    by auto
  have acts: "activities (db sv1) = activities (db sv)" and qrs: "qr_codes (db sv1) = qr_codes (db sv)"
    and vis: "visits (db sv1) = visits (db sv) @
           [\<lparr>visit_id = generated_visit_id s, visit_user_id = qr_user_id q\<rparr>]"
    by (simp_all add: sv1 d1)
  from select_qr_code_Some [OF q] show "q \<in> set (qr_codes (db sv1))" by (simp add: qrs)
  from select_qr_code_Some [OF q] show "qr_is_active q" by simp
  show "p_amount (points_transaction_args p_code (qr_user_id q) (generated_visit_id s2) a) = act_points a"
    by (simp add: points_transaction_args_def)
  have a2: "select_activity p_activity_name (activities (db sv1)) = Some a" using a by (simp add: acts)
  have q2: "select_qr_code (now s2) p_code (qr_codes (db sv1)) = Some q"
    using select_qr_code_later [OF q s2(2) s2(3)] by (simp add: qrs)
  have "accept_visit_block ppt s2 p_code p_activity_name (db sv1) =
      Inr ((db sv1)\<lparr>visits := visits (db sv1) @
             [\<lparr>visit_id = generated_visit_id s2, visit_user_id = qr_user_id q\<rparr>], ledger := l2\<rparr>)"
    using block_reaches_ledger [OF s2(1) a2 q2, of ppt] l2 by simp
  then have "accept_visit ppt s2 p_code p_activity_name sv1 =
      (Inr (), sv1\<lparr>db := (db sv1)\<lparr>visits := visits (db sv1) @
             [\<lparr>visit_id = generated_visit_id s2, visit_user_id = qr_user_id q\<rparr>], ledger := l2\<rparr>\<rparr>)"
    by (rule accept_visit_of_block_success)
  then show "accept_visit ppt s2 p_code p_activity_name sv1 =
              (Inr (), sv1\<lparr>db := (db sv1)\<lparr>
                 visits := visits (db sv) @
                   [\<lparr>visit_id = generated_visit_id s, visit_user_id = qr_user_id q\<rparr>,
                    \<lparr>visit_id = generated_visit_id s2, visit_user_id = qr_user_id q\<rparr>],
                 ledger := l2\<rparr>\<rparr>)"
    by (simp add: vis)
qed

theorem accept_visit_never_deactivates_witness:
  "accept_visit process_points_transaction (admin_at 1000 ''v-1'') (Some ''QR-1'') (Some ''gym'') club
     = (Inr (), club_after_first)
   \<and> select_activity (Some ''gym'') (activities (db club)) = Some gym
   \<and> select_qr_code (now (admin_at 1000 ''v-1'')) (Some ''QR-1'') (qr_codes (db club)) = Some fresh_code
   \<and> is_admin (admin_at 1001 ''v-2'')
   \<and> now (admin_at 1000 ''v-1'') \<le> now (admin_at 1001 ''v-2'')
   \<and> now (admin_at 1001 ''v-2'') < qr_expires_at fresh_code
   \<and> qr_codes (db club_after_first) = [expired_code, fresh_code]
   \<and> qr_is_active fresh_code
   \<and> accept_visit process_points_transaction (admin_at 1001 ''v-2'') (Some ''QR-1'') (Some ''gym'')
        club_after_first
       = (Inr (), club\<lparr>db := (db club)\<lparr>
            visits := [\<lparr>visit_id = ''v-0'', visit_user_id = ''u-2''\<rparr>,
                       \<lparr>visit_id = ''v-1'', visit_user_id = ''u-1''\<rparr>,
                       \<lparr>visit_id = ''v-2'', visit_user_id = ''u-1''\<rparr>],
            ledger := [points_transaction_args (Some ''QR-1'') ''u-1'' ''v-1'' gym,
                       points_transaction_args (Some ''QR-1'') ''u-1'' ''v-2'' gym]\<rparr>\<rparr>)
   \<and> p_amount (points_transaction_args (Some ''QR-1'') ''u-1'' ''v-2'' gym) = 10"
  using accept_visit_never_deactivates [of process_points_transaction "admin_at 1000 ''v-1''"
      "Some ''QR-1''" "Some ''gym''" club club_after_first gym fresh_code "admin_at 1001 ''v-2''"
      "[points_transaction_args (Some ''QR-1'') ''u-1'' ''v-1'' gym,
        points_transaction_args (Some ''QR-1'') ''u-1'' ''v-2'' gym]"]
  by (simp add: eval_defs example_defs club_after_first_def)

text \<open>
  C7. A successful call changes the database in two places only: the table of visits has
  one more row, for the user the code belongs to, and the ledger is the result of one call
  of \<open>process_points_transaction\<close> on the ledger before, with that user, the points of
  the activity, the kind \<open>earn\<close> and the note \<open>Points earned from\<close> followed by the
  activity's name. Nothing is logged. A failing call leaves the database as it was.
\<close>

theorem accept_visit_side_effects:
  "(accept_visit ppt s p_code p_activity_name sv = (Inr (), sv') \<longrightarrow>
      (\<exists>a q. select_activity p_activity_name (activities (db sv)) = Some a
         \<and> select_qr_code (now s) p_code (qr_codes (db sv)) = Some q
         \<and> db sv' = (db sv)\<lparr>
              visits := visits (db sv) @
                [\<lparr>visit_id = generated_visit_id s, visit_user_id = qr_user_id q\<rparr>],
              ledger := ledger (db sv')\<rparr>
         \<and> log sv' = log sv
         \<and> (let c = points_transaction_args p_code (qr_user_id q) (generated_visit_id s) a in
              ppt c (ledger (db sv)) = Inr (ledger (db sv'))
            \<and> p_user_id c = qr_user_id q
            \<and> p_amount c = act_points a
            \<and> p_type c = ''earn''
            \<and> p_description c = ''Points earned from '' @ act_name a)))
   \<and> (accept_visit ppt s p_code p_activity_name sv = (Inl e, sv') \<longrightarrow> db sv' = db sv)"
proof (intro conjI impI)
  assume run: "accept_visit ppt s p_code p_activity_name sv = (Inr (), sv')"
  then have "fst (accept_visit ppt s p_code p_activity_name sv) = Inr ()" by simp
  then obtain d' where b: "accept_visit_block ppt s p_code p_activity_name (db sv) = Inr d'"
    using accept_visit_success_block by blast
  with run have sv': "sv' = sv\<lparr>db := d'\<rparr>" by (simp add: accept_visit_of_block_success)
  from block_success [OF b] obtain a q l where
    a: "select_activity p_activity_name (activities (db sv)) = Some a" and
    q: "select_qr_code (now s) p_code (qr_codes (db sv)) = Some q" and
    l: "ppt (points_transaction_args p_code (qr_user_id q) (generated_visit_id s) a) (ledger (db sv)) = Inr l" and
    d': "d' = (db sv)\<lparr>visits := visits (db sv) @
           [\<lparr>visit_id = generated_visit_id s, visit_user_id = qr_user_id q\<rparr>], ledger := l\<rparr>"
    by blast
  have 1: "db sv' = (db sv)\<lparr>visits := visits (db sv) @
                [\<lparr>visit_id = generated_visit_id s, visit_user_id = qr_user_id q\<rparr>],
              ledger := ledger (db sv')\<rparr>"
    by (simp add: sv' d')
  have 2: "log sv' = log sv" by (simp add: sv')
  have 3: "ppt (points_transaction_args p_code (qr_user_id q) (generated_visit_id s) a) (ledger (db sv))
      = Inr (ledger (db sv'))"
    using l by (simp add: sv' d')
  have 4: "p_user_id (points_transaction_args p_code (qr_user_id q) (generated_visit_id s) a) = qr_user_id q"
    "p_amount (points_transaction_args p_code (qr_user_id q) (generated_visit_id s) a) = act_points a"
    "p_type (points_transaction_args p_code (qr_user_id q) (generated_visit_id s) a) = ''earn''"
    "p_description (points_transaction_args p_code (qr_user_id q) (generated_visit_id s) a)
       = ''Points earned from '' @ act_name a"
    by (simp_all add: points_transaction_args_def)
  from a q 1 2 3 4 show "\<exists>a q. select_activity p_activity_name (activities (db sv)) = Some a
         \<and> select_qr_code (now s) p_code (qr_codes (db sv)) = Some q
         \<and> db sv' = (db sv)\<lparr>
              visits := visits (db sv) @
                [\<lparr>visit_id = generated_visit_id s, visit_user_id = qr_user_id q\<rparr>],
              ledger := ledger (db sv')\<rparr>
         \<and> log sv' = log sv
         \<and> (let c = points_transaction_args p_code (qr_user_id q) (generated_visit_id s) a in
              ppt c (ledger (db sv)) = Inr (ledger (db sv'))
            \<and> p_user_id c = qr_user_id q
            \<and> p_amount c = act_points a
            \<and> p_type c = ''earn''
            \<and> p_description c = ''Points earned from '' @ act_name a)"
    unfolding Let_def by blast
next
  assume run: "accept_visit ppt s p_code p_activity_name sv = (Inl e, sv')"
  then have "fst (accept_visit ppt s p_code p_activity_name sv) = Inl e" by simp
  then obtain d' where "accept_visit_block ppt s p_code p_activity_name (db sv) = Inl (e, d')"
    using accept_visit_failure_block by blast
  with run show "db sv' = db sv" by (auto simp: accept_visit_of_block_raised split: if_splits)
qed

theorem accept_visit_side_effects_witness:
  "accept_visit process_points_transaction (admin_at 1000 ''v-1'') (Some ''QR-1'') (Some ''gym'') club
     = (Inr (), club_after_first)
   \<and> visits (db club_after_first) = visits (db club) @ [\<lparr>visit_id = ''v-1'', visit_user_id = ''u-1''\<rparr>]
   \<and> ledger (db club_after_first) = ledger (db club) @
        [\<lparr>p_user_id = ''u-1'', p_amount = 10, p_type = ''earn'',
          p_description = ''Points earned from gym'',
          p_metadata = JObject [(''qr_code'', JString ''QR-1''), (''visit_id'', JString ''v-1''),
            (''activity_name'', JString ''gym''), (''activity_id'', JString ''a-gym'')]\<rparr>]
   \<and> activities (db club_after_first) = activities (db club)
   \<and> qr_codes (db club_after_first) = qr_codes (db club)
   \<and> log club_after_first = log club
   \<and> accept_visit ledger_down (admin_at 1000 ''v-1'') (Some ''QR-1'') (Some ''gym'') club
     = (Inl \<lparr>sqlstate = ''23503'', message = ''no profile for user''\<rparr>,
        club\<lparr>log := [''Error in accept_visit: no profile for user'']\<rparr>)
   \<and> db (club\<lparr>log := [''Error in accept_visit: no profile for user'']\<rparr>) = db club"
  using accept_visit_side_effects [of process_points_transaction "admin_at 1000 ''v-1''"
      "Some ''QR-1''" "Some ''gym''" club club_after_first]
    accept_visit_side_effects [of ledger_down "admin_at 1000 ''v-1''"
      "Some ''QR-1''" "Some ''gym''" club
      "club\<lparr>log := [''Error in accept_visit: no profile for user'']\<rparr>"
      "\<lparr>sqlstate = ''23503'', message = ''no profile for user''\<rparr>"]
  by (simp add: eval_defs example_defs club_after_first_def)

text \<open>
  C8, as the spec words it, has every failing call log the error before it raises it
  again. An error that \<open>WHEN OTHERS\<close> does not trap never reaches the handler: when the
  ledger call is cancelled by the statement timeout, the call fails with that error and the
  server log is as it was.
\<close>

theorem cancelled_call_not_logged_counterexample:
  "fst (accept_visit ledger_cancelled (admin_at 1000 ''v-1'') (Some ''QR-1'') (Some ''gym'') club)
     = Inl \<lparr>sqlstate = ''57014'', message = ''canceling statement due to statement timeout''\<rparr>
   \<and> log (snd (accept_visit ledger_cancelled (admin_at 1000 ''v-1'') (Some ''QR-1'') (Some ''gym'')
        club)) = log club
   \<and> log club = []"
  by (simp add: eval_defs example_defs ledger_cancelled_def)

text \<open>
  C8, amended. Whatever the statements of the block are, when they raise an error the
  function fails with that same error; it has written one line with the error's message to
  the server log first when \<open>WHEN OTHERS\<close> traps the error, that is for every error but
  \<open>QUERY_CANCELED\<close> and \<open>ASSERT_FAILURE\<close>, and it has written nothing for these two.
  So it is for \<open>accept_visit\<close>: a failing call stems from an error of its block, fails
  with it unchanged, and has logged it exactly when it is trapped; this holds for an error
  raised by \<open>process_points_transaction\<close>, and the three errors that the procedure
  raises itself are always logged.
\<close>

theorem accept_visit_reraises_and_logs_trapped:
  "(body (db sv) = Inl (e0, d0) \<longrightarrow>
      begin_exception_when_others body sv =
        (Inl e0, if when_others e0
                 then sv\<lparr>log := log sv @ [''Error in accept_visit: '' @ message e0]\<rparr> else sv))
   \<and> (accept_visit_block ppt s p_code p_activity_name (db sv) = Inl (e, d_failed) \<longrightarrow>
        accept_visit ppt s p_code p_activity_name sv =
          (Inl e, if when_others e
                  then sv\<lparr>log := log sv @ [''Error in accept_visit: '' @ message e]\<rparr> else sv))
   \<and> (fst (accept_visit ppt s p_code p_activity_name sv) = Inl e' \<longrightarrow>
        (\<exists>d. accept_visit_block ppt s p_code p_activity_name (db sv) = Inl (e', d))
        \<and> log (snd (accept_visit ppt s p_code p_activity_name sv))
            = (if when_others e' then log sv @ [''Error in accept_visit: '' @ message e']
               else log sv))
   \<and> (is_admin s \<and> select_activity p_activity_name (activities (db sv)) = Some a
        \<and> select_qr_code (now s) p_code (qr_codes (db sv)) = Some q
        \<and> ppt (points_transaction_args p_code (qr_user_id q) (generated_visit_id s) a)
              (ledger (db sv)) = Inl e''
      \<longrightarrow> accept_visit ppt s p_code p_activity_name sv =
            (Inl e'', if when_others e''
                      then sv\<lparr>log := log sv @ [''Error in accept_visit: '' @ message e'']\<rparr>
                      else sv))
   \<and> when_others e3 = (sqlstate e3 \<noteq> ''57014'' \<and> sqlstate e3 \<noteq> ''P0004'')
   \<and> when_others Unauthorized \<and> when_others InvalidActivity \<and> when_others InvalidOrExpiredCode"
proof (intro conjI impI)
  assume "body (db sv) = Inl (e0, d0)"
  then show "begin_exception_when_others body sv =
        (Inl e0, if when_others e0
                 then sv\<lparr>log := log sv @ [''Error in accept_visit: '' @ message e0]\<rparr> else sv)"
    by (rule block_raised)
next
  assume "accept_visit_block ppt s p_code p_activity_name (db sv) = Inl (e, d_failed)"
  then show "accept_visit ppt s p_code p_activity_name sv =
          (Inl e, if when_others e
                  then sv\<lparr>log := log sv @ [''Error in accept_visit: '' @ message e]\<rparr> else sv)"
    by (rule accept_visit_of_block_raised)
next
  assume f: "fst (accept_visit ppt s p_code p_activity_name sv) = Inl e'"
  then obtain d where d: "accept_visit_block ppt s p_code p_activity_name (db sv) = Inl (e', d)"
    using accept_visit_failure_block by blast
  then show "\<exists>d. accept_visit_block ppt s p_code p_activity_name (db sv) = Inl (e', d)" by blast
  from d show "log (snd (accept_visit ppt s p_code p_activity_name sv))
            = (if when_others e' then log sv @ [''Error in accept_visit: '' @ message e']
               else log sv)"
    by (simp add: accept_visit_of_block_raised)
next
  assume "is_admin s \<and> select_activity p_activity_name (activities (db sv)) = Some a
        \<and> select_qr_code (now s) p_code (qr_codes (db sv)) = Some q
        \<and> ppt (points_transaction_args p_code (qr_user_id q) (generated_visit_id s) a)
              (ledger (db sv)) = Inl e''"
  then have "accept_visit_block ppt s p_code p_activity_name (db sv) =
      Inl (e'', (db sv)\<lparr>visits := visits (db sv) @
             [\<lparr>visit_id = generated_visit_id s, visit_user_id = qr_user_id q\<rparr>]\<rparr>)"
    by (simp add: block_reaches_ledger)
  then show "accept_visit ppt s p_code p_activity_name sv =
            (Inl e'', if when_others e''
                      then sv\<lparr>log := log sv @ [''Error in accept_visit: '' @ message e'']\<rparr>
                      else sv)"
    by (rule accept_visit_of_block_raised)
next
  show "when_others e3 = (sqlstate e3 \<noteq> ''57014'' \<and> sqlstate e3 \<noteq> ''P0004'')"
    by (simp add: when_others_def)
  show "when_others Unauthorized" by (simp add: Unauthorized_def when_others_raise_exception)
  show "when_others InvalidActivity" by (simp add: InvalidActivity_def when_others_raise_exception)
  show "when_others InvalidOrExpiredCode"
    by (simp add: InvalidOrExpiredCode_def when_others_raise_exception)
qed

theorem accept_visit_reraises_and_logs_trapped_witness:
  "accept_visit_block ledger_down (admin_at 1000 ''v-1'') (Some ''QR-1'') (Some ''gym'') (db club)
     = Inl (\<lparr>sqlstate = ''23503'', message = ''no profile for user''\<rparr>,
            (db club)\<lparr>visits := [\<lparr>visit_id = ''v-0'', visit_user_id = ''u-2''\<rparr>,
                                  \<lparr>visit_id = ''v-1'', visit_user_id = ''u-1''\<rparr>]\<rparr>)
   \<and> when_others \<lparr>sqlstate = ''23503'', message = ''no profile for user''\<rparr>
   \<and> is_admin (admin_at 1000 ''v-1'')
   \<and> select_activity (Some ''gym'') (activities (db club)) = Some gym
   \<and> select_qr_code (now (admin_at 1000 ''v-1'')) (Some ''QR-1'') (qr_codes (db club)) = Some fresh_code
   \<and> ledger_down (points_transaction_args (Some ''QR-1'') (qr_user_id fresh_code)
        (generated_visit_id (admin_at 1000 ''v-1'')) gym) (ledger (db club))
       = Inl \<lparr>sqlstate = ''23503'', message = ''no profile for user''\<rparr>
   \<and> accept_visit ledger_down (admin_at 1000 ''v-1'') (Some ''QR-1'') (Some ''gym'') club
       = (Inl \<lparr>sqlstate = ''23503'', message = ''no profile for user''\<rparr>,
          club\<lparr>log := [''Error in accept_visit: no profile for user'']\<rparr>)
   \<and> begin_exception_when_others
        (accept_visit_block ledger_down (admin_at 1000 ''v-1'') (Some ''QR-1'') (Some ''gym'')) club
       = (Inl \<lparr>sqlstate = ''23503'', message = ''no profile for user''\<rparr>,
          club\<lparr>log := [''Error in accept_visit: no profile for user'']\<rparr>)
   \<and> \<not> when_others \<lparr>sqlstate = ''57014'',
        message = ''canceling statement due to statement timeout''\<rparr>
   \<and> ledger_cancelled (points_transaction_args (Some ''QR-1'') (qr_user_id fresh_code)
        (generated_visit_id (admin_at 1000 ''v-1'')) gym) (ledger (db club))
       = Inl \<lparr>sqlstate = ''57014'', message = ''canceling statement due to statement timeout''\<rparr>
   \<and> accept_visit ledger_cancelled (admin_at 1000 ''v-1'') (Some ''QR-1'') (Some ''gym'') club
       = (Inl \<lparr>sqlstate = ''57014'', message = ''canceling statement due to statement timeout''\<rparr>,
          club)"
  using accept_visit_reraises_and_logs_trapped [where body = "accept_visit_block ledger_down
        (admin_at 1000 ''v-1'') (Some ''QR-1'') (Some ''gym'')" and sv = club
      and ?e0.0 = "\<lparr>sqlstate = ''23503'', message = ''no profile for user''\<rparr>"
      and ?d0.0 = "(db club)\<lparr>visits := [\<lparr>visit_id = ''v-0'', visit_user_id = ''u-2''\<rparr>,
                            \<lparr>visit_id = ''v-1'', visit_user_id = ''u-1''\<rparr>]\<rparr>"
      and ppt = ledger_down and s = "admin_at 1000 ''v-1''" and p_code = "Some ''QR-1''"
      and p_activity_name = "Some ''gym''"
      and e = "\<lparr>sqlstate = ''23503'', message = ''no profile for user''\<rparr>"
      and d_failed = "(db club)\<lparr>visits := [\<lparr>visit_id = ''v-0'', visit_user_id = ''u-2''\<rparr>,
                            \<lparr>visit_id = ''v-1'', visit_user_id = ''u-1''\<rparr>]\<rparr>"
      and e' = "\<lparr>sqlstate = ''23503'', message = ''no profile for user''\<rparr>"
      and a = gym and q = fresh_code
      and e'' = "\<lparr>sqlstate = ''23503'', message = ''no profile for user''\<rparr>"]
    accept_visit_reraises_and_logs_trapped [where sv = club
      and ppt = ledger_cancelled and s = "admin_at 1000 ''v-1''" and p_code = "Some ''QR-1''"
      and p_activity_name = "Some ''gym''" and a = gym and q = fresh_code
      and e'' = "\<lparr>sqlstate = ''57014'',
        message = ''canceling statement due to statement timeout''\<rparr>"]
  by (simp add: eval_defs example_defs ledger_cancelled_def)

section \<open>Properties of the dashboard screen\<close>

text \<open>
  C10. The load started by the mount effect is the \<open>loadData\<close> of the first render,
  where \<open>isAdmin\<close> is false, although \<open>checkUserAdmin\<close> has by then stored the real
  answer. So after the mount both statistics are \<open>null\<close> and loading is over, for an
  administrator too; a later \<open>loadData\<close>, from the render then on screen, fetches both
  statistics for an administrator.
\<close>

theorem first_load_reads_first_render_flag:
  "isAdmin (first_render :: ('a, 'r) dashboard) = False
   \<and> isAdmin (checkUserAdmin api (first_render :: ('a, 'r) dashboard)) = (checkAdminStatus api = Inr True)
   \<and> mount api = loadData first_render api (checkUserAdmin api first_render)
   \<and> stats (mount api) = None
   \<and> reviewStats (mount api) = None
   \<and> loading (mount api) = False
   \<and> isAdmin (mount api) = (checkAdminStatus api = Inr True)
   \<and> (checkAdminStatus api = Inr True \<longrightarrow>
        stats (refresh api' (mount api)) = catch_null (getAdminStats api')
        \<and> reviewStats (refresh api' (mount api)) = catch_null (getReviewStats api'))"
proof -
  have init: "isAdmin (first_render :: ('a, 'r) dashboard) = False"
    by (simp add: first_render_def)
  have flag: "isAdmin (checkUserAdmin api (first_render :: ('a, 'r) dashboard)) = (checkAdminStatus api = Inr True)"
    by (cases "checkAdminStatus api") (auto simp: checkUserAdmin_def first_render_def)
  have unfold: "mount api = loadData first_render api (checkUserAdmin api first_render)"
    by (simp add: mount_def initializeData_def)
  have m: "mount api = (checkUserAdmin api first_render)
      \<lparr>error := None, loading := True, stats := None, reviewStats := None, loading := False\<rparr>"
    by (simp add: unfold loadData_def init Let_def)
  have st: "stats (mount api) = None" "reviewStats (mount api) = None" "loading (mount api) = False"
    by (simp_all add: m)
  have after: "isAdmin (mount api) = (checkAdminStatus api = Inr True)"
    using flag by (simp add: m)
  have again: "checkAdminStatus api = Inr True \<longrightarrow>
        stats (refresh api' (mount api)) = catch_null (getAdminStats api')
        \<and> reviewStats (refresh api' (mount api)) = catch_null (getReviewStats api')"
    using after by (simp add: refresh_def loadData_def Let_def)
  from init flag unfold st after again show ?thesis by blast
qed

theorem first_load_reads_first_render_flag_witness:
  "checkAdminStatus admin_backend = Inr True
   \<and> isAdmin (checkUserAdmin admin_backend first_render) = True
   \<and> mount admin_backend = \<lparr>stats = None, reviewStats = None, loading = False, error = None,
        isAdmin = True\<rparr>
   \<and> refresh admin_backend (mount admin_backend)
       = \<lparr>stats = Some 7, reviewStats = Some 3, loading = False, error = None, isAdmin = True\<rparr>"
  using first_load_reads_first_render_flag [of admin_backend admin_backend]
  by (simp add: admin_backend_def mount_def initializeData_def loadData_def checkUserAdmin_def
      first_render_def refresh_def catch_null_def Let_def)

end
